theory Spec2Isabelle
  imports Complex_Main
begin

section \<open>The AirSim drone environment of envs/airsim\_drone\_env\_0.py\<close>

text \<open>
  The class \<open>AirSimDroneEnv\<close> wraps a simulator session. The simulator is an opaque
  service: what it answers to a query (position, point cloud, collision flag) is an
  input of the model, and the commands sent to it (reset, arm, move, take off) leave no
  trace in the adapter's own state. A failure of the session itself is outside the model.

  Python and numpy floats are modelled as \<open>real\<close>: rounding (the cast to float32 of the
  observation), infinities and NaN are idealised away. Python's unbounded integers are
  \<open>int\<close>. A numpy array of one dimension is a list, an array of two dimensions is the
  list of its rows. Every exception the adapter's own code can raise is a value of
  \<open>error\<close>.
\<close>

datatype error = ValueError | IndexError | AttributeError

subsection \<open>Configuration\<close>

text \<open>
  Modelled from the spec: the module \<open>config\<close> is not part of the sources. The spec lists
  what it supplies: the target position (a 3-vector), the maximal step count, the radius
  of the safe boundary and the reward magnitudes. They are parameters of the model.
\<close>

record config =
  TARGET_POSITION :: "real \<times> real \<times> real"
  MAX_STEPS :: int
  SAFE_BOUND :: real
  REWARD_COLLISION :: real
  REWARD_MAX_STEP_EXCEED :: real
  REWARD_GOAL :: real
  REWARD_OUT_OF_BOUNDS :: real
  REWARD_STEP :: real
  REWARD_DISTANCE_GAIN :: real
  REWARD_DISTANCE_LOSS :: real

subsection \<open>What the simulator answers\<close>

record vector3r =
  x_val :: real
  y_val :: real
  z_val :: real

text \<open>
  One reading of the sensors, as \<open>_get_state\<close> queries it: the estimated position of
  \<open>getMultirotorState\<close> and the flat buffer \<open>point_cloud\<close> of \<open>getLidarData\<close>.
\<close>

record sensors =
  position :: vector3r
  point_cloud :: "real list"

subsection \<open>The adapter's state\<close>

text \<open>
  The attributes of \<open>self\<close> that the methods read or write. \<open>__init__\<close> assigns
  \<open>step_count\<close> but not \<open>step_in_episode\<close>, which exists only once \<open>reset\<close> or a terminal
  branch of the reward function has assigned it: \<open>None\<close> is the missing attribute. The
  attribute \<open>lidar_data_log\<close>, assigned the empty list by \<open>reset\<close> and never read, is
  left out.
\<close>

record env =
  target_pos :: "real \<times> real \<times> real"
  max_steps :: int
  step_count :: int
  safe_bound :: real
  step_in_episode :: "int option"

definition init :: "config \<Rightarrow> env" where
  "init cfg =
     \<lparr>target_pos = TARGET_POSITION cfg,
      max_steps = MAX_STEPS cfg,
      step_count = 0,
      safe_bound = SAFE_BOUND cfg,
      step_in_episode = None\<rparr>"

subsection \<open>numpy operations\<close>

text \<open>\<open>reshape(-1, 3)\<close>: the rows of three of a flat buffer, a ValueError when its size
  is not a multiple of three.\<close>

fun rows3 :: "real list \<Rightarrow> real list list" where
  "rows3 (a # b # c # rest) = [a, b, c] # rows3 rest"
| "rows3 _ = []"

definition reshape3 :: "real list \<Rightarrow> error + real list list" where
  "reshape3 buf = (if length buf mod 3 = 0 then Inr (rows3 buf) else Inl ValueError)"

text \<open>Subtraction of two arrays of one dimension with numpy's broadcasting: equal
  lengths go element by element, a length of one is stretched, anything else raises.\<close>

definition sub_broadcast :: "real list \<Rightarrow> real list \<Rightarrow> error + real list" where
  "sub_broadcast a b =
     (if length a = length b then Inr (map2 (-) a b)
      else if length b = 1 then Inr (map (\<lambda>x. x - hd b) a)
      else if length a = 1 then Inr (map (\<lambda>y. hd a - y) b)
      else Inl ValueError)"

text \<open>A two-dimensional array minus a one-dimensional one: the latter is subtracted
  from every row.\<close>

fun sub_rows :: "real list list \<Rightarrow> real list \<Rightarrow> error + real list list" where
  "sub_rows [] b = Inr []"
| "sub_rows (r # rs) b =
     (case sub_broadcast r b of
        Inl e \<Rightarrow> Inl e
      | Inr d \<Rightarrow>
          (case sub_rows rs b of
             Inl e \<Rightarrow> Inl e
           | Inr ds \<Rightarrow> Inr (d # ds)))"

text \<open>\<open>np.linalg.norm\<close> without further arguments: the root of the sum of the squares
  of all entries, for a vector and (as the Frobenius norm) for a matrix.\<close>

definition linalg_norm :: "real list \<Rightarrow> real" where
  "linalg_norm v = sqrt (\<Sum>x\<leftarrow>v. x\<^sup>2)"

definition linalg_norm2 :: "real list list \<Rightarrow> real" where
  "linalg_norm2 m = linalg_norm (concat m)"

definition vec :: "real \<times> real \<times> real \<Rightarrow> real list" where
  "vec p = (case p of (x, y, z) \<Rightarrow> [x, y, z])"

subsection \<open>\<open>_get_state\<close>\<close>

definition get_state :: "sensors \<Rightarrow> error + real list list" where
  "get_state s =
     (let pos = position s;
          drone_position = [x_val pos, y_val pos, z_val pos]
      in case reshape3 (point_cloud s) of
           Inl e \<Rightarrow> Inl e
         | Inr lidar_points \<Rightarrow>
             (let num_points = 80;
                  lidar_points' =
                    (if length lidar_points < num_points
                     then lidar_points @ replicate (num_points - length lidar_points) [0, 0, 0]
                     else if length lidar_points > num_points
                     then take num_points lidar_points
                     else lidar_points)
              in Inr (drone_position # lidar_points')))"

subsection \<open>\<open>calculate_reward\<close>\<close>

text \<open>Lines 123 to 132, the shaped reward of a step that does not end the episode.\<close>

definition shaped_reward :: "config \<Rightarrow> real \<Rightarrow> real \<Rightarrow> real" where
  "shaped_reward cfg prev_distance current_distance =
     (let reward = REWARD_STEP cfg;
          distance_change = prev_distance - current_distance
      in if distance_change > 0
         then reward + REWARD_DISTANCE_GAIN cfg * (distance_change powr (3 / 2))
         else reward + REWARD_DISTANCE_LOSS cfg * (\<bar>distance_change\<bar> powr (3 / 2)))"

text \<open>
  \<open>has_collided\<close> is the flag of the simulator's answer to \<open>simGetCollisionInfo\<close>. The
  result is the adapter's state after the call with the pair that the method returns,
  or the exception; no branch that raises has written to \<open>self\<close> before.
\<close>

definition calculate_reward ::
  "config \<Rightarrow> env \<Rightarrow> bool \<Rightarrow> real \<Rightarrow> real \<Rightarrow> real list list \<Rightarrow> error + (env \<times> real \<times> bool)" where
  "calculate_reward cfg self has_collided prev_distance current_distance new_state =
     (if has_collided
      then Inr (self\<lparr>step_in_episode := Some 0\<rparr>, REWARD_COLLISION cfg, True)
      else
        (case step_in_episode self of
           None \<Rightarrow> Inl AttributeError
         | Some n \<Rightarrow>
             if n \<ge> max_steps self
             then Inr (self\<lparr>step_in_episode := Some 0\<rparr>, REWARD_MAX_STEP_EXCEED cfg, True)
             else if current_distance < 1
             then Inr (self\<lparr>step_in_episode := Some 0\<rparr>, REWARD_GOAL cfg, True)
             else
               (let center = [0, 0, - 2]
                in case new_state of
                     [] \<Rightarrow> Inl IndexError
                   | drone_position # _ \<Rightarrow>
                       (case sub_broadcast drone_position center of
                          Inl e \<Rightarrow> Inl e
                        | Inr diff \<Rightarrow>
                            (let distance_from_center = linalg_norm diff
                             in if distance_from_center > safe_bound self
                                then Inr (self\<lparr>step_in_episode := Some 0\<rparr>,
                                          REWARD_OUT_OF_BOUNDS cfg, True)
                                else Inr (self\<lparr>step_in_episode := Some (n + 1)\<rparr>,
                                          shaped_reward cfg prev_distance current_distance,
                                          False))))))"

subsection \<open>\<open>reset\<close> and \<open>step\<close>\<close>

text \<open>\<open>reset\<close> assigns both counters before it queries the state, so they are written
  also when the query raises.\<close>

definition reset :: "env \<Rightarrow> sensors \<Rightarrow> env \<times> (error + real list list)" where
  "reset self s =
     (let self' = self\<lparr>step_count := 0, step_in_episode := Some 0\<rparr>
      in (self', get_state s))"

text \<open>Lines 76 and 77: the norm of the first three rows of an observation minus the
  target position.\<close>

definition distance_arg :: "env \<Rightarrow> real list list \<Rightarrow> error + real" where
  "distance_arg self state =
     (case sub_rows (take 3 state) (vec (target_pos self)) of
        Inl e \<Rightarrow> Inl e
      | Inr m \<Rightarrow> Inr (linalg_norm2 m))"

text \<open>
  \<open>before\<close> and \<open>after\<close> are the sensor readings on either side of the velocity command.
  Unpacking \<open>map(float, action)\<close> into four names raises a ValueError unless the action
  has four entries. The last component of the result is the empty info dictionary.
\<close>

definition step ::
  "config \<Rightarrow> env \<Rightarrow> real list \<Rightarrow> sensors \<Rightarrow> sensors \<Rightarrow> bool \<Rightarrow>
   error + (env \<times> real list list \<times> real \<times> bool \<times> (string \<times> string) list)" where
  "step cfg self action before after has_collided =
     (case get_state before of
        Inl e \<Rightarrow> Inl e
      | Inr state \<Rightarrow>
          if length action \<noteq> 4 then Inl ValueError
          else
            (case get_state after of
               Inl e \<Rightarrow> Inl e
             | Inr new_state \<Rightarrow>
                 (case distance_arg self state of
                    Inl e \<Rightarrow> Inl e
                  | Inr prev_distance \<Rightarrow>
                      (case distance_arg self new_state of
                         Inl e \<Rightarrow> Inl e
                       | Inr current_distance \<Rightarrow>
                           (case calculate_reward cfg self has_collided
                                   prev_distance current_distance new_state of
                              Inl e \<Rightarrow> Inl e
                            | Inr (self', reward, done) \<Rightarrow>
                                Inr (self'\<lparr>step_count := step_count self' + 1\<rparr>,
                                     new_state, reward, done, []))))))"


subsection \<open>A sample configuration and sample readings\<close>

text \<open>
  Concrete inputs at which the model is evaluated below. They are not taken from the
  sources: the configuration module is absent, so the values are sample values. The
  drone hovers exactly at the target, and the LiDAR returns two points.
\<close>

definition example_config :: config where
  "example_config =
     \<lparr>TARGET_POSITION = (4, 0, - 2),
      MAX_STEPS = 200,
      SAFE_BOUND = 10,
      REWARD_COLLISION = - 100,
      REWARD_MAX_STEP_EXCEED = - 50,
      REWARD_GOAL = 100,
      REWARD_OUT_OF_BOUNDS = - 80,
      REWARD_STEP = - 1,
      REWARD_DISTANCE_GAIN = 2,
      REWARD_DISTANCE_LOSS = - 3\<rparr>"

definition example_sensors :: sensors where
  "example_sensors =
     \<lparr>position = \<lparr>x_val = 4, y_val = 0, z_val = - 2\<rparr>,
      point_cloud = [7, 0, - 2, 4, 4, - 2]\<rparr>"

definition example_obs :: "real list list" where
  "example_obs = [4, 0, - 2] # [7, 0, - 2] # [4, 4, - 2] # replicate 78 [0, 0, 0]"

text \<open>The adapter after \<open>__init__\<close> and \<open>reset\<close> under the sample configuration.\<close>

definition example_env :: env where
  "example_env = fst (reset (init example_config) example_sensors)"

section \<open>Properties\<close>

subsection \<open>Auxiliary facts on the array operations\<close>

lemma rows3_concat: "\<forall>p\<in>set pts. length p = 3 \<Longrightarrow> rows3 (concat pts) = pts"
proof (induction pts)
  case Nil
  then show ?case by simp
next
  case (Cons p pts)
  then obtain a b c where "p = [a, b, c]"
    by (cases p; simp; cases "tl p"; simp; cases "tl (tl p)"; simp)
  with Cons show ?case by simp
qed

lemma length_rows3: "length (rows3 buf) = length buf div 3"
  by (induction buf rule: rows3.induct) simp_all

lemma rows3_len3: "r \<in> set (rows3 buf) \<Longrightarrow> length r = 3"
  by (induction buf rule: rows3.induct) auto

lemma rows3_nth:
  "i < length buf div 3 \<Longrightarrow>
   rows3 buf ! i = [buf ! (3 * i), buf ! (3 * i + 1), buf ! (3 * i + 2)]"
proof (induction buf arbitrary: i rule: rows3.induct)
  case (1 a b c rest)
  then show ?case by (cases i) simp_all
qed simp_all

lemma get_state_rows:
  assumes "length (point_cloud s) mod 3 = 0"
  shows "get_state s =
         Inr ([x_val (position s), y_val (position s), z_val (position s)] #
              take 80 (rows3 (point_cloud s)) @
              replicate (80 - length (point_cloud s) div 3) [0, 0, 0])"
  using assms by (simp add: get_state_def reshape3_def Let_def length_rows3)

lemma sub_broadcast3:
  "sub_broadcast [a, b, c] [x, y, z] = Inr [a - x, b - y, c - z]"
  by (simp add: sub_broadcast_def)

lemma linalg_norm3: "linalg_norm [a, b, c] = sqrt (a\<^sup>2 + b\<^sup>2 + c\<^sup>2)"
  by (simp add: linalg_norm_def)

lemma example_env_eq:
  "example_env =
     \<lparr>target_pos = (4, 0, - 2), max_steps = 200, step_count = 0, safe_bound = 10,
      step_in_episode = Some 0\<rparr>"
  by (simp add: example_env_def reset_def init_def example_config_def Let_def)

lemma get_state_example: "get_state example_sensors = Inr example_obs"
  by (simp add: get_state_def reshape3_def example_sensors_def example_obs_def Let_def)

subsection \<open>The observation of the state query\<close>

text \<open>
  Claim C2, as the code has it. The state query reshapes the flat buffer into rows of
  three. For every drone position and every buffer whose length is a multiple of three
  it returns an observation of exactly 81 rows of 3 columns each; row 0 is the drone
  position, and row \<open>i + 1\<close> (for \<open>i < 80\<close>) is the \<open>i\<close>-th LiDAR point, three consecutive
  entries of the buffer, or the zero point when the buffer holds no \<open>i\<close>-th point. On
  every buffer whose length is not a multiple of three the reshape raises a ValueError
  and no observation is returned.
\<close>

theorem get_state_shape:
  "(length (point_cloud s) mod 3 = 0 \<longrightarrow>
      (\<exists>obs. get_state s = Inr obs \<and> length obs = 81 \<and>
           (\<forall>row\<in>set obs. length row = 3) \<and>
           obs ! 0 = [x_val (position s), y_val (position s), z_val (position s)] \<and>
           (\<forall>i<80. obs ! Suc i =
              (if i < length (point_cloud s) div 3
               then [point_cloud s ! (3 * i), point_cloud s ! (3 * i + 1),
                     point_cloud s ! (3 * i + 2)]
               else [0, 0, 0])))) \<and>
   (length (point_cloud s) mod 3 \<noteq> 0 \<longrightarrow> get_state s = Inl ValueError)"
proof -
  have good: "\<exists>obs. get_state s = Inr obs \<and> length obs = 81 \<and>
           (\<forall>row\<in>set obs. length row = 3) \<and>
           obs ! 0 = [x_val (position s), y_val (position s), z_val (position s)] \<and>
           (\<forall>i<80. obs ! Suc i =
              (if i < length (point_cloud s) div 3
               then [point_cloud s ! (3 * i), point_cloud s ! (3 * i + 1),
                     point_cloud s ! (3 * i + 2)]
               else [0, 0, 0]))"
    if whole: "length (point_cloud s) mod 3 = 0"
  proof -
    let ?pc = "point_cloud s"
    let ?n = "length ?pc div 3"
    let ?row0 = "[x_val (position s), y_val (position s), z_val (position s)]"
    define lidar where "lidar = take 80 (rows3 ?pc) @ replicate (80 - ?n) [0, 0, 0]"
    have len: "length lidar = 80"
      by (simp add: lidar_def length_rows3)
    have cols: "length row = 3" if "row \<in> set lidar" for row
    proof -
      from that have "row \<in> set (take 80 (rows3 ?pc)) \<or> row \<in> set (replicate (80 - ?n) [0, 0, 0])"
        by (simp add: lidar_def)
      then show ?thesis
      proof
        assume "row \<in> set (take 80 (rows3 ?pc))"
        then have "row \<in> set (rows3 ?pc)" by (rule in_set_takeD)
        then show ?thesis by (rule rows3_len3)
      next
        assume "row \<in> set (replicate (80 - ?n) [0, 0, 0])"
        then have "row = [0, 0, 0]" by simp
        then show ?thesis by simp
      qed
    qed
    have nth: "lidar ! i =
        (if i < ?n then [?pc ! (3 * i), ?pc ! (3 * i + 1), ?pc ! (3 * i + 2)] else [0, 0, 0])"
      if i: "i < 80" for i
    proof (cases "i < ?n")
      case True
      with i have "i < length (take 80 (rows3 ?pc))"
        by (simp add: length_rows3)
      then have "lidar ! i = take 80 (rows3 ?pc) ! i"
        by (simp add: lidar_def nth_append)
      also have "\<dots> = rows3 ?pc ! i"
        using i by simp
      also have "\<dots> = [?pc ! (3 * i), ?pc ! (3 * i + 1), ?pc ! (3 * i + 2)]"
        using True by (rule rows3_nth)
      finally show ?thesis using True by simp
    next
      case False
      then have l: "length (take 80 (rows3 ?pc)) = ?n"
        using i by (simp add: length_rows3)
      have "lidar ! i = replicate (80 - ?n) [0, 0, 0] ! (i - ?n)"
        using False unfolding lidar_def nth_append l by simp
      also have "\<dots> = [0, 0, 0]"
        using False i by (intro nth_replicate) linarith
      finally show ?thesis using False by simp
    qed
    have "get_state s = Inr (?row0 # lidar)"
      unfolding lidar_def using whole by (rule get_state_rows)
    moreover have "length (?row0 # lidar) = 81"
      using len by simp
    moreover have "\<forall>row\<in>set (?row0 # lidar). length row = 3"
      using cols by simp
    moreover have "(?row0 # lidar) ! 0 = ?row0"
      by simp
    moreover have "\<forall>i<80. (?row0 # lidar) ! Suc i =
        (if i < ?n then [?pc ! (3 * i), ?pc ! (3 * i + 1), ?pc ! (3 * i + 2)] else [0, 0, 0])"
      using nth by simp
    ultimately show ?thesis by (intro exI [of _ "?row0 # lidar"] conjI)
  qed
  have bad: "get_state s = Inl ValueError" if "length (point_cloud s) mod 3 \<noteq> 0"
    using that by (simp add: get_state_def reshape3_def)
  from good bad show ?thesis
    by blast
qed

text \<open>The sample reading, a buffer of six entries, that is two points; and a buffer of
  four entries, one point and a stray coordinate.\<close>

theorem get_state_shape_witness:
  "length (point_cloud example_sensors) mod 3 = 0 \<and>
   (\<exists>obs. get_state example_sensors = Inr obs \<and> length obs = 81 \<and>
      obs ! 0 = [4, 0, - 2] \<and> obs ! Suc 0 = [7, 0, - 2] \<and> obs ! Suc 1 = [4, 4, - 2] \<and>
      obs ! Suc 2 = [0, 0, 0] \<and> obs ! Suc 79 = [0, 0, 0]) \<and>
   length (point_cloud (example_sensors\<lparr>point_cloud := [7, 0, - 2, 4]\<rparr>)) mod 3 \<noteq> 0 \<and>
   get_state (example_sensors\<lparr>point_cloud := [7, 0, - 2, 4]\<rparr>) = Inl ValueError"
proof -
  have h: "length (point_cloud example_sensors) mod 3 = 0"
    by (simp add: example_sensors_def)
  have h': "length (point_cloud (example_sensors\<lparr>point_cloud := [7, 0, - 2, 4]\<rparr>)) mod 3 \<noteq> 0"
    by simp
  from get_state_shape [of "example_sensors\<lparr>point_cloud := [7, 0, - 2, 4]\<rparr>"] h'
  have e: "get_state (example_sensors\<lparr>point_cloud := [7, 0, - 2, 4]\<rparr>) = Inl ValueError"
    by blast
  from get_state_shape [of example_sensors] h obtain obs where
    o: "get_state example_sensors = Inr obs" "length obs = 81"
       "obs ! 0 = [x_val (position example_sensors), y_val (position example_sensors),
                   z_val (position example_sensors)]"
    and nth: "\<forall>i<80. obs ! Suc i =
              (if i < length (point_cloud example_sensors) div 3
               then [point_cloud example_sensors ! (3 * i),
                     point_cloud example_sensors ! (3 * i + 1),
                     point_cloud example_sensors ! (3 * i + 2)]
               else [0, 0, 0])"
    by blast
  have "obs ! 0 = [4, 0, - 2]"
    using o(3) by (simp add: example_sensors_def)
  moreover have "obs ! Suc 0 = [7, 0, - 2]"
    using nth [rule_format, of 0] by (simp add: example_sensors_def)
  moreover have "obs ! Suc 1 = [4, 4, - 2]"
    using nth [rule_format, of 1] by (simp add: example_sensors_def)
  moreover have "obs ! Suc 2 = [0, 0, 0]"
    using nth [rule_format, of 2] by (simp add: example_sensors_def)
  moreover have "obs ! Suc 79 = [0, 0, 0]"
    using nth [rule_format, of 79] by (simp add: example_sensors_def)
  ultimately show ?thesis using h h' e o(1,2) by blast
qed

text \<open>
  Claim C2 as the spec states it, for every input, fails: a buffer of a single entry
  cannot be reshaped into rows of three, and the state query raises instead of
  returning an observation.
\<close>

theorem get_state_shape_counterexample:
  "get_state \<lparr>position = \<lparr>x_val = 0, y_val = 0, z_val = 0\<rparr>, point_cloud = [0]\<rparr> =
   Inl ValueError"
  by (simp add: get_state_def reshape3_def)

text \<open>
  Claim C3. For every raw point cloud of \<open>n\<close> points (the buffer is the points one after
  the other): if \<open>n < 80\<close> the state query appends \<open>80 - n\<close> zero points after the \<open>n\<close> raw
  points; if \<open>n > 80\<close> it keeps the first 80 raw points, in order; if \<open>n = 80\<close> the points
  are unchanged. In each case the drone position comes first.
\<close>

theorem get_state_pad_truncate:
  assumes "\<forall>p\<in>set pts. length p = 3" and "length pts = n"
  shows "(n < 80 \<longrightarrow>
            get_state \<lparr>position = pos, point_cloud = concat pts\<rparr> =
            Inr ([x_val pos, y_val pos, z_val pos] # pts @ replicate (80 - n) [0, 0, 0])) \<and>
         (n > 80 \<longrightarrow>
            get_state \<lparr>position = pos, point_cloud = concat pts\<rparr> =
            Inr ([x_val pos, y_val pos, z_val pos] # take 80 pts)) \<and>
         (n = 80 \<longrightarrow>
            get_state \<lparr>position = pos, point_cloud = concat pts\<rparr> =
            Inr ([x_val pos, y_val pos, z_val pos] # pts))"
proof -
  have rows: "rows3 (concat pts) = pts"
    using assms(1) by (rule rows3_concat)
  have "length (concat pts) = 3 * n"
    using assms by (induction pts arbitrary: n) auto
  then have "length (concat pts) mod 3 = 0"
    by simp
  then show ?thesis
    using rows assms(2) by (simp add: get_state_def reshape3_def Let_def)
qed

text \<open>Point counts 0, 1, 80, 81 and 200.\<close>

theorem get_state_pad_truncate_witness:
  "get_state \<lparr>position = \<lparr>x_val = 1, y_val = 2, z_val = 3\<rparr>, point_cloud = concat []\<rparr> =
     Inr ([1, 2, 3] # [] @ replicate (80 - 0) [0, 0, 0]) \<and>
   get_state \<lparr>position = \<lparr>x_val = 1, y_val = 2, z_val = 3\<rparr>,
              point_cloud = concat [[5, 6, 7]]\<rparr> =
     Inr ([1, 2, 3] # [[5, 6, 7]] @ replicate (80 - 1) [0, 0, 0]) \<and>
   get_state \<lparr>position = \<lparr>x_val = 1, y_val = 2, z_val = 3\<rparr>,
              point_cloud = concat (replicate 80 [5, 6, 7])\<rparr> =
     Inr ([1, 2, 3] # replicate 80 [5, 6, 7]) \<and>
   get_state \<lparr>position = \<lparr>x_val = 1, y_val = 2, z_val = 3\<rparr>,
              point_cloud = concat (replicate 81 [5, 6, 7])\<rparr> =
     Inr ([1, 2, 3] # take 80 (replicate 81 [5, 6, 7])) \<and>
   get_state \<lparr>position = \<lparr>x_val = 1, y_val = 2, z_val = 3\<rparr>,
              point_cloud = concat (replicate 200 [5, 6, 7])\<rparr> =
     Inr ([1, 2, 3] # take 80 (replicate 200 [5, 6, 7]))"
  using get_state_pad_truncate [of "[]" 0 "\<lparr>x_val = 1, y_val = 2, z_val = 3\<rparr>"]
    get_state_pad_truncate [of "[[5, 6, 7]]" 1 "\<lparr>x_val = 1, y_val = 2, z_val = 3\<rparr>"]
    get_state_pad_truncate [of "replicate 80 [5, 6, 7]" 80 "\<lparr>x_val = 1, y_val = 2, z_val = 3\<rparr>"]
    get_state_pad_truncate [of "replicate 81 [5, 6, 7]" 81 "\<lparr>x_val = 1, y_val = 2, z_val = 3\<rparr>"]
    get_state_pad_truncate [of "replicate 200 [5, 6, 7]" 200 "\<lparr>x_val = 1, y_val = 2, z_val = 3\<rparr>"]
  by simp

subsection \<open>Auxiliary facts on the reward function\<close>

lemma calculate_reward_collision:
  "calculate_reward cfg self True prev cur ns =
   Inr (self\<lparr>step_in_episode := Some 0\<rparr>, REWARD_COLLISION cfg, True)"
  by (simp add: calculate_reward_def)

lemma calculate_reward_timeout:
  "step_in_episode self = Some n \<Longrightarrow> n \<ge> max_steps self \<Longrightarrow>
   calculate_reward cfg self False prev cur ns =
   Inr (self\<lparr>step_in_episode := Some 0\<rparr>, REWARD_MAX_STEP_EXCEED cfg, True)"
  by (simp add: calculate_reward_def)

lemma calculate_reward_goal:
  "step_in_episode self = Some n \<Longrightarrow> n < max_steps self \<Longrightarrow> cur < 1 \<Longrightarrow>
   calculate_reward cfg self False prev cur ns =
   Inr (self\<lparr>step_in_episode := Some 0\<rparr>, REWARD_GOAL cfg, True)"
  by (simp add: calculate_reward_def)

lemma calculate_reward_boundary:
  "step_in_episode self = Some n \<Longrightarrow> n < max_steps self \<Longrightarrow> \<not> cur < 1 \<Longrightarrow>
   calculate_reward cfg self False prev cur ([x, y, z] # rest) =
   (if sqrt (x\<^sup>2 + y\<^sup>2 + (z + 2)\<^sup>2) > safe_bound self
    then Inr (self\<lparr>step_in_episode := Some 0\<rparr>, REWARD_OUT_OF_BOUNDS cfg, True)
    else Inr (self\<lparr>step_in_episode := Some (n + 1)\<rparr>, shaped_reward cfg prev cur, False))"
  by (simp add: calculate_reward_def Let_def sub_broadcast3 linalg_norm3)

lemma powr_three_halves: "0 \<le> (x::real) \<Longrightarrow> x powr (3 / 2) = x * sqrt x"
proof (cases "x = 0")
  case True
  then show ?thesis by simp
next
  case False
  assume "0 \<le> x"
  have "x powr (3 / 2) = x powr (1 + 1 / 2)" by simp
  also have "\<dots> = x powr 1 * x powr (1 / 2)" by (rule powr_add)
  also have "\<dots> = x * sqrt x" using \<open>0 \<le> x\<close> by (simp add: powr_half_sqrt)
  finally show ?thesis .
qed

lemma abs_powr_tendsto: "((\<lambda>d::real. \<bar>d\<bar> powr (3 / 2)) \<longlongrightarrow> 0) (at 0)"
proof -
  have "((\<lambda>d::real. \<bar>d\<bar> powr (3 / 2)) \<longlongrightarrow> \<bar>0\<bar> powr (3 / 2)) (at 0)"
    by (rule tendsto_powr') (auto intro!: tendsto_eq_intros)
  then show ?thesis by simp
qed

lemma shaped_reward_isCont: "isCont (\<lambda>d. shaped_reward cfg (c + d) c) 0"
proof -
  let ?k = "\<lambda>d::real. if d > 0 then REWARD_DISTANCE_GAIN cfg else REWARD_DISTANCE_LOSS cfg"
  let ?M = "max \<bar>REWARD_DISTANCE_GAIN cfg\<bar> \<bar>REWARD_DISTANCE_LOSS cfg\<bar>"
  have eq: "(\<lambda>d. shaped_reward cfg (c + d) c) =
            (\<lambda>d. REWARD_STEP cfg + ?k d * (\<bar>d\<bar> powr (3 / 2)))"
    by (auto simp: shaped_reward_def Let_def fun_eq_iff)
  have b: "\<bar>?k d * (\<bar>d\<bar> powr (3 / 2))\<bar> \<le> ?M * (\<bar>d\<bar> powr (3 / 2))" for d
    by (simp add: abs_mult mult_right_mono)
  have "((\<lambda>d. ?k d * (\<bar>d\<bar> powr (3 / 2))) \<longlongrightarrow> 0) (at 0)"
  proof (rule tendsto_sandwich)
    show "\<forall>\<^sub>F d in at 0. - (?M * (\<bar>d\<bar> powr (3 / 2))) \<le> ?k d * (\<bar>d\<bar> powr (3 / 2))"
    proof (intro always_eventually allI)
      fix d
      show "- (?M * (\<bar>d\<bar> powr (3 / 2))) \<le> ?k d * (\<bar>d\<bar> powr (3 / 2))"
        using b [of d] by (simp only: abs_le_iff) linarith
    qed
    show "\<forall>\<^sub>F d in at 0. ?k d * (\<bar>d\<bar> powr (3 / 2)) \<le> ?M * (\<bar>d\<bar> powr (3 / 2))"
    proof (intro always_eventually allI)
      fix d
      show "?k d * (\<bar>d\<bar> powr (3 / 2)) \<le> ?M * (\<bar>d\<bar> powr (3 / 2))"
        using b [of d] by (simp only: abs_le_iff)
    qed
    have "((\<lambda>d. ?M * (\<bar>d\<bar> powr (3 / 2))) \<longlongrightarrow> ?M * 0) (at 0)"
      by (intro tendsto_mult tendsto_const abs_powr_tendsto)
    then show up: "((\<lambda>d. ?M * (\<bar>d\<bar> powr (3 / 2))) \<longlongrightarrow> 0) (at 0)"
      by simp
    have "((\<lambda>d. - (?M * (\<bar>d\<bar> powr (3 / 2)))) \<longlongrightarrow> - 0) (at 0)"
      using up by (rule tendsto_minus)
    then show "((\<lambda>d. - (?M * (\<bar>d\<bar> powr (3 / 2)))) \<longlongrightarrow> 0) (at 0)"
      by simp
  qed
  then have "((\<lambda>d. REWARD_STEP cfg + ?k d * (\<bar>d\<bar> powr (3 / 2)))
               \<longlongrightarrow> REWARD_STEP cfg + 0) (at 0)"
    by (intro tendsto_add tendsto_const)
  then show ?thesis unfolding eq isCont_def by simp
qed

lemma example_obs_Cons:
  "example_obs = [4, 0, - 2] # ([7, 0, - 2] # [4, 4, - 2] # replicate 78 [0, 0, 0])"
  by (simp add: example_obs_def)

subsection \<open>The reward function\<close>

text \<open>
  Claim C4. The reward function checks its terminal branches in the fixed order
  collision, step limit, goal, out of bounds, and the first branch whose condition holds
  determines the result. A collision gives the collision penalty with terminal = true
  whatever the counter, the distances and the observation are: also when the step limit
  is reached and the goal is reached, when the counter attribute does not exist yet, and
  when the observation has no row 0 to read, so none of the later checks is evaluated.
  Without collision, a counter at or above the step limit gives the timeout penalty
  whatever the distance and the observation; below the limit, a distance under 1 gives
  the goal reward whatever the observation; and only then is the boundary tested.
\<close>

theorem reward_priority_order:
  "calculate_reward cfg self True prev cur ns =
     Inr (self\<lparr>step_in_episode := Some 0\<rparr>, REWARD_COLLISION cfg, True) \<and>
   (step_in_episode self = Some n \<and> n \<ge> max_steps self \<longrightarrow>
      calculate_reward cfg self False prev cur ns =
      Inr (self\<lparr>step_in_episode := Some 0\<rparr>, REWARD_MAX_STEP_EXCEED cfg, True)) \<and>
   (step_in_episode self = Some n \<and> n < max_steps self \<and> cur < 1 \<longrightarrow>
      calculate_reward cfg self False prev cur ns =
      Inr (self\<lparr>step_in_episode := Some 0\<rparr>, REWARD_GOAL cfg, True)) \<and>
   (step_in_episode self = Some n \<and> n < max_steps self \<and> \<not> cur < 1 \<and>
    sqrt (x\<^sup>2 + y\<^sup>2 + (z + 2)\<^sup>2) > safe_bound self \<longrightarrow>
      calculate_reward cfg self False prev cur ([x, y, z] # rest) =
      Inr (self\<lparr>step_in_episode := Some 0\<rparr>, REWARD_OUT_OF_BOUNDS cfg, True))"
proof (intro conjI impI)
  show "calculate_reward cfg self True prev cur ns =
        Inr (self\<lparr>step_in_episode := Some 0\<rparr>, REWARD_COLLISION cfg, True)"
    by (rule calculate_reward_collision)
next
  assume "step_in_episode self = Some n \<and> n \<ge> max_steps self"
  then show "calculate_reward cfg self False prev cur ns =
      Inr (self\<lparr>step_in_episode := Some 0\<rparr>, REWARD_MAX_STEP_EXCEED cfg, True)"
    by (simp add: calculate_reward_timeout)
next
  assume "step_in_episode self = Some n \<and> n < max_steps self \<and> cur < 1"
  then show "calculate_reward cfg self False prev cur ns =
      Inr (self\<lparr>step_in_episode := Some 0\<rparr>, REWARD_GOAL cfg, True)"
    by (simp add: calculate_reward_goal)
next
  assume "step_in_episode self = Some n \<and> n < max_steps self \<and> \<not> cur < 1 \<and>
          sqrt (x\<^sup>2 + y\<^sup>2 + (z + 2)\<^sup>2) > safe_bound self"
  then show "calculate_reward cfg self False prev cur ([x, y, z] # rest) =
      Inr (self\<lparr>step_in_episode := Some 0\<rparr>, REWARD_OUT_OF_BOUNDS cfg, True)"
    by (simp add: calculate_reward_boundary)
qed

text \<open>
  The sample adapter with its counter at the step limit of 200, a distance of 1/2 and
  no observation at all: with collision the collision penalty, without it the timeout
  penalty. With the counter at 0: the goal reward at distance 1/2, and at distance 5,
  twelve units from the centre of a boundary of radius 10, the out-of-bounds penalty.
\<close>

theorem reward_priority_order_witness:
  "calculate_reward example_config (example_env\<lparr>step_in_episode := Some 200\<rparr>)
     True 3 (1 / 2) [] =
     Inr (example_env\<lparr>step_in_episode := Some 0\<rparr>, - 100, True) \<and>
   calculate_reward example_config (example_env\<lparr>step_in_episode := Some 200\<rparr>)
     False 3 (1 / 2) [] =
     Inr (example_env\<lparr>step_in_episode := Some 0\<rparr>, - 50, True) \<and>
   calculate_reward example_config example_env False 3 (1 / 2) [] =
     Inr (example_env\<lparr>step_in_episode := Some 0\<rparr>, 100, True) \<and>
   calculate_reward example_config example_env False 3 5 [[12, 0, - 2]] =
     Inr (example_env\<lparr>step_in_episode := Some 0\<rparr>, - 80, True)"
  using
    reward_priority_order [of example_config "example_env\<lparr>step_in_episode := Some 200\<rparr>"
      3 "1 / 2" "[]" 200 0 0 0 "[]"]
    reward_priority_order [of example_config example_env 3 "1 / 2" "[]" 0 0 0 0 "[]"]
    reward_priority_order [of example_config example_env 3 5 "[]" 0 12 0 "- 2" "[]"]
  by (simp add: example_env_eq example_config_def)

text \<open>
  Claim C5. For every call of the reward function with no collision where the
  per-episode counter is at or above the configured maximal number of steps and the
  current distance to the target is below 1, the result is the timeout penalty, not
  the goal reward, with terminal = true.
\<close>

theorem timeout_before_goal:
  assumes "step_in_episode self = Some n" and "n \<ge> max_steps self" and "cur < 1"
  shows "calculate_reward cfg self False prev cur ns =
         Inr (self\<lparr>step_in_episode := Some 0\<rparr>, REWARD_MAX_STEP_EXCEED cfg, True)"
  using assms(1,2) by (rule calculate_reward_timeout)

theorem timeout_before_goal_witness:
  "step_in_episode (example_env\<lparr>step_in_episode := Some 200\<rparr>) = Some 200 \<and>
   200 \<ge> max_steps (example_env\<lparr>step_in_episode := Some 200\<rparr>) \<and>
   (1 / 2 :: real) < 1 \<and>
   calculate_reward example_config (example_env\<lparr>step_in_episode := Some 200\<rparr>)
     False 3 (1 / 2) example_obs =
     Inr (example_env\<lparr>step_in_episode := Some 0\<rparr>, - 50, True) \<and>
   REWARD_GOAL example_config = 100"
proof -
  have h1: "step_in_episode (example_env\<lparr>step_in_episode := Some 200\<rparr>) = Some 200"
    by simp
  have h2: "200 \<ge> max_steps (example_env\<lparr>step_in_episode := Some 200\<rparr>)"
    by (simp add: example_env_eq)
  have h3: "(1 / 2 :: real) < 1"
    by simp
  show ?thesis
    using h1 h2 h3 timeout_before_goal [OF h1 h2 h3, of example_config 3 example_obs]
    by (simp add: example_config_def)
qed

text \<open>
  Claim C6. For every call of the reward function that reaches the boundary branch (no
  collision, step limit not reached, goal not reached), with \<open>(x, y, z)\<close> the drone
  position in row 0 of the new observation: if the Euclidean distance from \<open>(x, y, z)\<close>
  to the centre \<open>(0, 0, -2)\<close> is strictly greater than the configured safe radius, the
  result is the out-of-bounds penalty with terminal = true; when that distance equals
  the safe radius, or is below it, the call does not end the episode.
\<close>

theorem boundary_check:
  assumes "step_in_episode self = Some n" and "n < max_steps self" and "\<not> cur < 1"
  shows "(sqrt ((x - 0)\<^sup>2 + (y - 0)\<^sup>2 + (z - (- 2))\<^sup>2) > safe_bound self \<longrightarrow>
            calculate_reward cfg self False prev cur ([x, y, z] # rest) =
            Inr (self\<lparr>step_in_episode := Some 0\<rparr>, REWARD_OUT_OF_BOUNDS cfg, True)) \<and>
         (sqrt ((x - 0)\<^sup>2 + (y - 0)\<^sup>2 + (z - (- 2))\<^sup>2) = safe_bound self \<longrightarrow>
            calculate_reward cfg self False prev cur ([x, y, z] # rest) =
            Inr (self\<lparr>step_in_episode := Some (n + 1)\<rparr>,
                 shaped_reward cfg prev cur, False)) \<and>
         (sqrt ((x - 0)\<^sup>2 + (y - 0)\<^sup>2 + (z - (- 2))\<^sup>2) < safe_bound self \<longrightarrow>
            calculate_reward cfg self False prev cur ([x, y, z] # rest) =
            Inr (self\<lparr>step_in_episode := Some (n + 1)\<rparr>,
                 shaped_reward cfg prev cur, False))"
  using calculate_reward_boundary [OF assms, of cfg prev x y z rest] by simp

text \<open>Radius 10: a drone 12 units from the centre, and one at exactly 10 units.\<close>

theorem boundary_check_witness:
  "calculate_reward example_config example_env False 5 5 ([12, 0, - 2] # []) =
     Inr (example_env\<lparr>step_in_episode := Some 0\<rparr>, - 80, True) \<and>
   calculate_reward example_config example_env False 5 5 ([10, 0, - 2] # []) =
     Inr (example_env\<lparr>step_in_episode := Some (0 + 1)\<rparr>, - 1, False) \<and>
   calculate_reward example_config example_env False 5 5 ([6, 0, - 2] # []) =
     Inr (example_env\<lparr>step_in_episode := Some (0 + 1)\<rparr>, - 1, False)"
proof -
  have h1: "step_in_episode example_env = Some 0"
    by (simp add: example_env_eq)
  have h2: "0 < max_steps example_env"
    by (simp add: example_env_eq)
  have h3: "\<not> (5 :: real) < 1"
    by simp
  have sb: "safe_bound example_env = 10"
    by (simp add: example_env_eq)
  have sh: "shaped_reward example_config 5 5 = - 1"
    by (simp add: shaped_reward_def example_config_def)
  have "calculate_reward example_config example_env False 5 5 ([12, 0, - 2] # []) =
     Inr (example_env\<lparr>step_in_episode := Some 0\<rparr>, - 80, True)"
    using boundary_check [OF h1 h2 h3, of 12 0 "- 2" example_config 5 "[]"]
    by (simp add: sb example_config_def)
  moreover have "calculate_reward example_config example_env False 5 5 ([10, 0, - 2] # []) =
     Inr (example_env\<lparr>step_in_episode := Some (0 + 1)\<rparr>, - 1, False)"
    using boundary_check [OF h1 h2 h3, of 10 0 "- 2" example_config 5 "[]"]
    by (simp add: sb sh)
  moreover have "calculate_reward example_config example_env False 5 5 ([6, 0, - 2] # []) =
     Inr (example_env\<lparr>step_in_episode := Some (0 + 1)\<rparr>, - 1, False)"
    using boundary_check [OF h1 h2 h3, of 6 0 "- 2" example_config 5 "[]"]
    by (simp add: sb sh)
  ultimately show ?thesis by (intro conjI)
qed

text \<open>
  Claim C7. For every call of the reward function that reaches the non-terminal branch
  (no collision, step limit not reached, goal not reached, drone inside the boundary),
  with \<open>\<Delta>\<close> the previous distance minus the current distance: the result is not
  terminal, and its reward is the base reward of a step plus gain times \<open>\<Delta>\<close> to the
  power 1.5 if \<open>\<Delta> > 0\<close>, and the base reward plus loss times \<open>|\<Delta>|\<close> to the power 1.5
  otherwise. At \<open>\<Delta> = 0\<close> both formulas give the base reward, and the reward, as a
  function of \<open>\<Delta>\<close>, is continuous there.
\<close>

theorem shaping_reward:
  assumes "step_in_episode self = Some n" and "n < max_steps self" and "\<not> cur < 1"
    and "\<not> sqrt (x\<^sup>2 + y\<^sup>2 + (z + 2)\<^sup>2) > safe_bound self"
  shows "calculate_reward cfg self False prev cur ([x, y, z] # rest) =
           Inr (self\<lparr>step_in_episode := Some (n + 1)\<rparr>, shaped_reward cfg prev cur, False) \<and>
         (prev - cur > 0 \<longrightarrow>
            shaped_reward cfg prev cur =
            REWARD_STEP cfg + REWARD_DISTANCE_GAIN cfg * (prev - cur) powr (3 / 2)) \<and>
         (\<not> prev - cur > 0 \<longrightarrow>
            shaped_reward cfg prev cur =
            REWARD_STEP cfg + REWARD_DISTANCE_LOSS cfg * \<bar>prev - cur\<bar> powr (3 / 2)) \<and>
         REWARD_STEP cfg + REWARD_DISTANCE_GAIN cfg * 0 powr (3 / 2) = REWARD_STEP cfg \<and>
         shaped_reward cfg cur cur = REWARD_STEP cfg \<and>
         isCont (\<lambda>d. shaped_reward cfg (cur + d) cur) 0"
proof (intro conjI impI)
  show "calculate_reward cfg self False prev cur ([x, y, z] # rest) =
        Inr (self\<lparr>step_in_episode := Some (n + 1)\<rparr>, shaped_reward cfg prev cur, False)"
    using calculate_reward_boundary [OF assms(1-3), of cfg prev x y z rest] assms(4)
    by simp
next
  assume "prev - cur > 0"
  then show "shaped_reward cfg prev cur =
      REWARD_STEP cfg + REWARD_DISTANCE_GAIN cfg * (prev - cur) powr (3 / 2)"
    by (simp add: shaped_reward_def Let_def)
next
  assume "\<not> prev - cur > 0"
  then show "shaped_reward cfg prev cur =
      REWARD_STEP cfg + REWARD_DISTANCE_LOSS cfg * \<bar>prev - cur\<bar> powr (3 / 2)"
    by (simp add: shaped_reward_def Let_def)
next
  show "REWARD_STEP cfg + REWARD_DISTANCE_GAIN cfg * 0 powr (3 / 2) = REWARD_STEP cfg"
    by simp
next
  show "shaped_reward cfg cur cur = REWARD_STEP cfg"
    by (simp add: shaped_reward_def)
next
  show "isCont (\<lambda>d. shaped_reward cfg (cur + d) cur) 0"
    by (rule shaped_reward_isCont)
qed

text \<open>
  Base reward -1, gain 2, loss -3. Approaching the target by 4 gives
  \<open>-1 + 2 * 8 = 15\<close>, moving away by 4 gives \<open>-1 - 3 * 8 = -25\<close>.
\<close>

theorem shaping_reward_witness:
  "calculate_reward example_config example_env False 9 5 example_obs =
     Inr (example_env\<lparr>step_in_episode := Some 1\<rparr>, 15, False) \<and>
   calculate_reward example_config example_env False 5 9 example_obs =
     Inr (example_env\<lparr>step_in_episode := Some 1\<rparr>, - 25, False)"
proof -
  have h1: "step_in_episode example_env = Some 0"
    by (simp add: example_env_eq)
  have h2: "0 < max_steps example_env"
    by (simp add: example_env_eq)
  have h3: "\<not> (5 :: real) < 1" and h3': "\<not> (9 :: real) < 1"
    by simp_all
  have h4: "\<not> sqrt (4\<^sup>2 + 0\<^sup>2 + (- 2 + 2)\<^sup>2) > safe_bound example_env"
    by (simp add: example_env_eq)
  have "calculate_reward example_config example_env False 9 5 example_obs =
     Inr (example_env\<lparr>step_in_episode := Some 1\<rparr>, 15, False)"
    using shaping_reward [OF h1 h2 h3 h4, of example_config 9
        "[7, 0, - 2] # [4, 4, - 2] # replicate 78 [0, 0, 0]"]
    by (simp add: example_obs_Cons example_config_def powr_three_halves)
  moreover have "calculate_reward example_config example_env False 5 9 example_obs =
     Inr (example_env\<lparr>step_in_episode := Some 1\<rparr>, - 25, False)"
    using shaping_reward [OF h1 h2 h3' h4, of example_config 5
        "[7, 0, - 2] # [4, 4, - 2] # replicate 78 [0, 0, 0]"]
    by (simp add: example_obs_Cons example_config_def powr_three_halves)
  ultimately show ?thesis by (intro conjI)
qed

text \<open>
  Claim C8. For every call of the reward function with no collision and the step limit
  not reached, the goal branch fires exactly when the current distance to the target is
  strictly below 1, a threshold that no configuration value enters: then the result is
  the goal reward with terminal = true. At a distance of 1 or more, so at exactly 1,
  the goal branch does not fire: the result is the one of the boundary test on row 0
  of the observation, the out-of-bounds penalty or the shaped reward of a step.
\<close>

theorem goal_threshold:
  assumes "step_in_episode self = Some n" and "n < max_steps self"
  shows "(cur < 1 \<longrightarrow>
            calculate_reward cfg self False prev cur ([x, y, z] # rest) =
            Inr (self\<lparr>step_in_episode := Some 0\<rparr>, REWARD_GOAL cfg, True)) \<and>
         (\<not> cur < 1 \<longrightarrow>
            calculate_reward cfg self False prev cur ([x, y, z] # rest) =
            (if sqrt (x\<^sup>2 + y\<^sup>2 + (z + 2)\<^sup>2) > safe_bound self
             then Inr (self\<lparr>step_in_episode := Some 0\<rparr>, REWARD_OUT_OF_BOUNDS cfg, True)
             else Inr (self\<lparr>step_in_episode := Some (n + 1)\<rparr>,
                       shaped_reward cfg prev cur, False))) \<and>
         calculate_reward cfg self False prev 1 ([x, y, z] # rest) =
            (if sqrt (x\<^sup>2 + y\<^sup>2 + (z + 2)\<^sup>2) > safe_bound self
             then Inr (self\<lparr>step_in_episode := Some 0\<rparr>, REWARD_OUT_OF_BOUNDS cfg, True)
             else Inr (self\<lparr>step_in_episode := Some (n + 1)\<rparr>,
                       shaped_reward cfg prev 1, False))"
proof (intro conjI impI)
  assume "cur < 1"
  with assms show "calculate_reward cfg self False prev cur ([x, y, z] # rest) =
      Inr (self\<lparr>step_in_episode := Some 0\<rparr>, REWARD_GOAL cfg, True)"
    by (rule calculate_reward_goal)
next
  assume "\<not> cur < 1"
  with assms show "calculate_reward cfg self False prev cur ([x, y, z] # rest) =
      (if sqrt (x\<^sup>2 + y\<^sup>2 + (z + 2)\<^sup>2) > safe_bound self
       then Inr (self\<lparr>step_in_episode := Some 0\<rparr>, REWARD_OUT_OF_BOUNDS cfg, True)
       else Inr (self\<lparr>step_in_episode := Some (n + 1)\<rparr>, shaped_reward cfg prev cur, False))"
    by (rule calculate_reward_boundary)
next
  have "\<not> (1 :: real) < 1" by simp
  with assms show "calculate_reward cfg self False prev 1 ([x, y, z] # rest) =
      (if sqrt (x\<^sup>2 + y\<^sup>2 + (z + 2)\<^sup>2) > safe_bound self
       then Inr (self\<lparr>step_in_episode := Some 0\<rparr>, REWARD_OUT_OF_BOUNDS cfg, True)
       else Inr (self\<lparr>step_in_episode := Some (n + 1)\<rparr>, shaped_reward cfg prev 1, False))"
    by (rule calculate_reward_boundary)
qed

text \<open>Distance 1/2 ends the episode with the goal reward 100; distance exactly 1 gives
  the base reward -1 of a step and goes on.\<close>

theorem goal_threshold_witness:
  "calculate_reward example_config example_env False 1 (1 / 2) example_obs =
     Inr (example_env\<lparr>step_in_episode := Some 0\<rparr>, 100, True) \<and>
   calculate_reward example_config example_env False 1 1 example_obs =
     Inr (example_env\<lparr>step_in_episode := Some 1\<rparr>, - 1, False)"
proof -
  have h1: "step_in_episode example_env = Some 0"
    by (simp add: example_env_eq)
  have h2: "0 < max_steps example_env"
    by (simp add: example_env_eq)
  have sb: "safe_bound example_env = 10"
    by (simp add: example_env_eq)
  have sh: "shaped_reward example_config 1 1 = - 1"
    by (simp add: shaped_reward_def example_config_def)
  have "calculate_reward example_config example_env False 1 (1 / 2) example_obs =
     Inr (example_env\<lparr>step_in_episode := Some 0\<rparr>, 100, True)"
    using goal_threshold [OF h1 h2, of "1 / 2" example_config 1 4 0 "- 2"
        "[7, 0, - 2] # [4, 4, - 2] # replicate 78 [0, 0, 0]"]
    by (simp add: example_obs_Cons example_config_def)
  moreover have "calculate_reward example_config example_env False 1 1 example_obs =
     Inr (example_env\<lparr>step_in_episode := Some 1\<rparr>, - 1, False)"
    using goal_threshold [OF h1 h2, of 1 example_config 1 4 0 "- 2"
        "[7, 0, - 2] # [4, 4, - 2] # replicate 78 [0, 0, 0]"]
    by (simp add: example_obs_Cons sb sh)
  ultimately show ?thesis by (intro conjI)
qed

text \<open>
  Claim C10. For every call of the reward function, if it returns terminal = true then
  the per-episode counter is 0 immediately afterwards: the call has come through one of
  the four terminal branches (collision, step limit, goal, out of bounds), each of which
  assigns 0 to the counter and touches nothing else of the adapter's state.
\<close>

theorem terminal_resets_counter:
  assumes "calculate_reward cfg self has_collided prev cur ns = Inr (self', r, True)"
  shows "step_in_episode self' = Some 0 \<and>
         self' = self\<lparr>step_in_episode := Some 0\<rparr> \<and>
         r \<in> {REWARD_COLLISION cfg, REWARD_MAX_STEP_EXCEED cfg, REWARD_GOAL cfg,
               REWARD_OUT_OF_BOUNDS cfg}"
proof (cases has_collided)
  case True
  with assms show ?thesis
    by (auto simp: calculate_reward_def)
next
  case False
  with assms obtain n where n: "step_in_episode self = Some n"
    by (cases "step_in_episode self") (auto simp: calculate_reward_def)
  show ?thesis
  proof (cases "n \<ge> max_steps self")
    case True
    with assms False n show ?thesis
      by (auto simp: calculate_reward_def)
  next
    case below: False
    show ?thesis
    proof (cases "cur < 1")
      case True
      with assms False n below show ?thesis
        by (auto simp: calculate_reward_def)
    next
      case far: False
      with assms False n below show ?thesis
        by (auto simp: calculate_reward_def Let_def
            split: list.splits sum.splits if_splits)
    qed
  qed
qed

text \<open>The four terminal branches at the sample inputs.\<close>

theorem terminal_resets_counter_witness:
  "step_in_episode (example_env\<lparr>step_in_episode := Some 0\<rparr>) = Some 0 \<and>
   calculate_reward example_config (example_env\<lparr>step_in_episode := Some 7\<rparr>)
     True 3 5 example_obs =
     Inr (example_env\<lparr>step_in_episode := Some 0\<rparr>, - 100, True) \<and>
   calculate_reward example_config (example_env\<lparr>step_in_episode := Some 200\<rparr>)
     False 3 5 example_obs =
     Inr (example_env\<lparr>step_in_episode := Some 0\<rparr>, - 50, True) \<and>
   calculate_reward example_config (example_env\<lparr>step_in_episode := Some 7\<rparr>)
     False 3 (1 / 2) example_obs =
     Inr (example_env\<lparr>step_in_episode := Some 0\<rparr>, 100, True) \<and>
   calculate_reward example_config (example_env\<lparr>step_in_episode := Some 7\<rparr>)
     False 3 5 [[12, 0, - 2]] =
     Inr (example_env\<lparr>step_in_episode := Some 0\<rparr>, - 80, True)"
proof -
  have a: "calculate_reward example_config (example_env\<lparr>step_in_episode := Some 7\<rparr>)
     True 3 5 example_obs =
     Inr (example_env\<lparr>step_in_episode := Some 0\<rparr>, - 100, True)"
    by (simp add: calculate_reward_collision example_config_def)
  have b: "calculate_reward example_config (example_env\<lparr>step_in_episode := Some 200\<rparr>)
     False 3 5 example_obs =
     Inr (example_env\<lparr>step_in_episode := Some 0\<rparr>, - 50, True)"
    by (simp add: calculate_reward_timeout [where n = 200] example_env_eq example_config_def)
  have c: "calculate_reward example_config (example_env\<lparr>step_in_episode := Some 7\<rparr>)
     False 3 (1 / 2) example_obs =
     Inr (example_env\<lparr>step_in_episode := Some 0\<rparr>, 100, True)"
    by (simp add: calculate_reward_goal [where n = 7] example_env_eq example_config_def)
  have d: "calculate_reward example_config (example_env\<lparr>step_in_episode := Some 7\<rparr>)
     False 3 5 [[12, 0, - 2]] =
     Inr (example_env\<lparr>step_in_episode := Some 0\<rparr>, - 80, True)"
    by (simp add: calculate_reward_boundary [where n = 7] example_env_eq example_config_def)
  have ra: "step_in_episode (example_env\<lparr>step_in_episode := Some 0\<rparr>) = Some 0"
    using terminal_resets_counter [OF a] by (rule conjunct1)
  have rb: "step_in_episode (example_env\<lparr>step_in_episode := Some 0\<rparr>) = Some 0"
    using terminal_resets_counter [OF b] by (rule conjunct1)
  have rc: "step_in_episode (example_env\<lparr>step_in_episode := Some 0\<rparr>) = Some 0"
    using terminal_resets_counter [OF c] by (rule conjunct1)
  have rd: "step_in_episode (example_env\<lparr>step_in_episode := Some 0\<rparr>) = Some 0"
    using terminal_resets_counter [OF d] by (rule conjunct1)
  from ra rb rc rd a b c d show ?thesis by (intro conjI)
qed

subsection \<open>Auxiliary facts on \<open>step\<close>\<close>

text \<open>What lines 76 and 77 compute on an observation of at least three rows of three:
  the root of the squares of rows 0, 1 and 2 minus the target, nine terms in all.\<close>

lemma distance_arg_rows:
  assumes "target_pos self = (tx, ty, tz)"
  shows "distance_arg self ([a, b, c] # [d, e, f] # [g, h, i] # rest) =
         Inr (sqrt ((a - tx)\<^sup>2 + (b - ty)\<^sup>2 + (c - tz)\<^sup>2 +
                    (d - tx)\<^sup>2 + (e - ty)\<^sup>2 + (f - tz)\<^sup>2 +
                    (g - tx)\<^sup>2 + (h - ty)\<^sup>2 + (i - tz)\<^sup>2))"
  using assms
  by (simp add: distance_arg_def vec_def sub_broadcast3 linalg_norm2_def linalg_norm_def
      add.assoc)

lemma distance_arg_example: "distance_arg example_env example_obs = Inr 5"
proof -
  have t: "target_pos example_env = (4, 0, - 2)"
    by (simp add: example_env_eq)
  show ?thesis
    unfolding example_obs_Cons
    by (simp add: distance_arg_rows [OF t])
qed

lemma calculate_reward_effect:
  assumes "calculate_reward cfg self has_collided prev cur ns = Inr (self1, r, done)"
  shows "step_count self1 = step_count self \<and>
         (done \<longrightarrow> step_in_episode self1 = Some 0) \<and>
         (\<not> done \<longrightarrow>
            (\<exists>n. step_in_episode self = Some n \<and> step_in_episode self1 = Some (n + 1)))"
proof (cases has_collided)
  case True
  with assms show ?thesis
    by (auto simp: calculate_reward_def)
next
  case False
  with assms obtain n where n: "step_in_episode self = Some n"
    by (cases "step_in_episode self") (auto simp: calculate_reward_def)
  show ?thesis
  proof (cases "n \<ge> max_steps self")
    case True
    with assms False n show ?thesis
      by (auto simp: calculate_reward_def)
  next
    case below: False
    show ?thesis
    proof (cases "cur < 1")
      case True
      with assms False n below show ?thesis
        by (auto simp: calculate_reward_def)
    next
      case far: False
      with assms False n below show ?thesis
        by (auto simp: calculate_reward_def Let_def
            split: list.splits sum.splits if_splits)
    qed
  qed
qed

lemma step_Inr:
  assumes "step cfg self action before after has_collided = Inr (self', obs, r, done, info)"
  shows "\<exists>state prev cur self1.
           get_state before = Inr state \<and> length action = 4 \<and>
           get_state after = Inr obs \<and>
           distance_arg self state = Inr prev \<and> distance_arg self obs = Inr cur \<and>
           calculate_reward cfg self has_collided prev cur obs = Inr (self1, r, done) \<and>
           self' = self1\<lparr>step_count := step_count self1 + 1\<rparr> \<and> info = []"
  using assms
  by (auto simp: step_def split: sum.splits if_splits prod.splits)

lemma step_example_collision:
  "step example_config example_env [0, 0, 0, 0] example_sensors example_sensors True =
   Inr (\<lparr>target_pos = (4, 0, - 2), max_steps = 200, step_count = 1, safe_bound = 10,
         step_in_episode = Some 0\<rparr>, example_obs, - 100, True, [])"
proof -
  have "step example_config example_env [0, 0, 0, 0] example_sensors example_sensors True =
        Inr (example_env\<lparr>step_in_episode := Some 0,
                          step_count := step_count example_env + 1\<rparr>,
             example_obs, REWARD_COLLISION example_config, True, [])"
    by (simp add: step_def get_state_example distance_arg_example calculate_reward_collision)
  then show ?thesis
    by (simp add: example_env_eq example_config_def)
qed

lemma step_example_no_collision:
  "step example_config example_env [0, 0, 0, 0] example_sensors example_sensors False =
   Inr (\<lparr>target_pos = (4, 0, - 2), max_steps = 200, step_count = 1, safe_bound = 10,
         step_in_episode = Some 1\<rparr>, example_obs, - 1, False, [])"
proof -
  have h1: "step_in_episode example_env = Some 0" and h2: "0 < max_steps example_env"
    by (simp_all add: example_env_eq)
  have h3: "\<not> (5 :: real) < 1"
    by simp
  have sb: "safe_bound example_env = 10"
    by (simp add: example_env_eq)
  have c: "calculate_reward example_config example_env False 5 5 example_obs =
        Inr (example_env\<lparr>step_in_episode := Some (0 + 1)\<rparr>,
             shaped_reward example_config 5 5, False)"
    unfolding example_obs_Cons
    by (simp add: calculate_reward_boundary [OF h1 h2 h3] sb)
  have "step example_config example_env [0, 0, 0, 0] example_sensors example_sensors False =
        Inr (example_env\<lparr>step_in_episode := Some (0 + 1),
                          step_count := step_count example_env + 1\<rparr>,
             example_obs, shaped_reward example_config 5 5, False, [])"
    by (simp add: step_def get_state_example distance_arg_example c)
  then show ?thesis
    by (simp add: example_env_eq shaped_reward_def example_config_def)
qed

subsection \<open>The step operation\<close>

text \<open>
  Claim C1, at an input where the code departs from it. The claim: the previous and the
  current distance handed to the reward function are the Euclidean distance from the
  drone position, row 0 of the observation, to the target. The code takes the norm of
  \<open>state[:3] - target_pos\<close>; on an observation of 81 rows this slice is the first three
  rows (the drone position and the first two LiDAR points), and the norm of the
  resulting matrix is the root of the sum of all nine squares. In the sample reading the
  drone is exactly at the target \<open>(4, 0, -2)\<close>, so its Euclidean distance is 0, and the
  two LiDAR points lie 3 and 4 units from the target: the distance handed to the reward
  function is 5. The step therefore does not end the episode with the goal reward 100,
  as a distance below 1 would, but goes on with the base reward -1.
\<close>

theorem step_distance_frobenius:
  "get_state example_sensors = Inr example_obs \<and>
   example_obs ! 0 = [4, 0, - 2] \<and>
   vec (target_pos example_env) = [4, 0, - 2] \<and>
   sub_broadcast (example_obs ! 0) (vec (target_pos example_env)) = Inr [0, 0, 0] \<and>
   linalg_norm [0, 0, 0] = 0 \<and>
   distance_arg example_env example_obs = Inr 5 \<and>
   step example_config example_env [0, 0, 0, 0] example_sensors example_sensors False =
     Inr (\<lparr>target_pos = (4, 0, - 2), max_steps = 200, step_count = 1, safe_bound = 10,
           step_in_episode = Some 1\<rparr>, example_obs, - 1, False, [])"
proof (intro conjI)
  show "get_state example_sensors = Inr example_obs"
    by (rule get_state_example)
  show "example_obs ! 0 = [4, 0, - 2]"
    by (simp add: example_obs_def)
  show "vec (target_pos example_env) = [4, 0, - 2]"
    by (simp add: example_env_eq vec_def)
  show "sub_broadcast (example_obs ! 0) (vec (target_pos example_env)) = Inr [0, 0, 0]"
    by (simp add: example_obs_def example_env_eq vec_def sub_broadcast3)
  show "linalg_norm [0, 0, 0] = 0"
    by (simp add: linalg_norm_def)
  show "distance_arg example_env example_obs = Inr 5"
    by (rule distance_arg_example)
  show "step example_config example_env [0, 0, 0, 0] example_sensors example_sensors False =
     Inr (\<lparr>target_pos = (4, 0, - 2), max_steps = 200, step_count = 1, safe_bound = 10,
           step_in_episode = Some 1\<rparr>, example_obs, - 1, False, [])"
    by (rule step_example_no_collision)
qed

text \<open>
  Claim C9, as the code has it. Every reset call sets both step counters to zero. Every
  step call that returns increments the lifetime counter by one, whether the reward
  outcome is terminal or not. The per-episode counter is incremented, by one, only on
  non-terminal steps; a step whose reward outcome is terminal sets it to zero.
\<close>

theorem step_counters:
  "step_count (fst (reset self s)) = 0 \<and>
   step_in_episode (fst (reset self s)) = Some 0 \<and>
   (step cfg self action before after has_collided = Inr (self', obs, r, done, info) \<longrightarrow>
      step_count self' = step_count self + 1 \<and>
      (done \<longrightarrow> step_in_episode self' = Some 0) \<and>
      (\<not> done \<longrightarrow>
         (\<exists>n. step_in_episode self = Some n \<and> step_in_episode self' = Some (n + 1))))"
proof -
  have res: "step_count (fst (reset self s)) = 0 \<and>
             step_in_episode (fst (reset self s)) = Some 0"
    by (simp add: reset_def Let_def)
  have stp: "step_count self' = step_count self + 1 \<and>
      (done \<longrightarrow> step_in_episode self' = Some 0) \<and>
      (\<not> done \<longrightarrow>
         (\<exists>n. step_in_episode self = Some n \<and> step_in_episode self' = Some (n + 1)))"
    if st: "step cfg self action before after has_collided = Inr (self', obs, r, done, info)"
  proof -
    from step_Inr [OF st] obtain prev cur self1 where
      c: "calculate_reward cfg self has_collided prev cur obs = Inr (self1, r, done)"
      and s: "self' = self1\<lparr>step_count := step_count self1 + 1\<rparr>"
      by blast
    from calculate_reward_effect [OF c] s show ?thesis
      by simp
  qed
  from res stp show ?thesis
    by blast
qed

text \<open>A reset of the sample adapter, then one step with a collision (terminal) and
  one without (not terminal).\<close>

theorem step_counters_witness:
  "step_count (fst (reset example_env example_sensors)) = 0 \<and>
   step_in_episode (fst (reset example_env example_sensors)) = Some 0 \<and>
   step example_config example_env [0, 0, 0, 0] example_sensors example_sensors True =
     Inr (\<lparr>target_pos = (4, 0, - 2), max_steps = 200, step_count = 1, safe_bound = 10,
           step_in_episode = Some 0\<rparr>, example_obs, - 100, True, []) \<and>
   step_count \<lparr>target_pos = (4, 0, - 2), max_steps = 200, step_count = 1, safe_bound = 10,
           step_in_episode = Some 0\<rparr> = step_count example_env + 1 \<and>
   step example_config example_env [0, 0, 0, 0] example_sensors example_sensors False =
     Inr (\<lparr>target_pos = (4, 0, - 2), max_steps = 200, step_count = 1, safe_bound = 10,
           step_in_episode = Some 1\<rparr>, example_obs, - 1, False, []) \<and>
   step_count \<lparr>target_pos = (4, 0, - 2), max_steps = 200, step_count = 1, safe_bound = 10,
           step_in_episode = Some 1\<rparr> = step_count example_env + 1"
proof -
  note a = step_example_collision
  note b = step_example_no_collision
  note ta = step_counters [of example_env example_sensors
      example_config "[0, 0, 0, 0]" example_sensors example_sensors True
      "\<lparr>target_pos = (4, 0, - 2), max_steps = 200, step_count = 1, safe_bound = 10,
        step_in_episode = Some 0\<rparr>" example_obs "- 100" True "[]"]
  note tb = step_counters [of example_env example_sensors
      example_config "[0, 0, 0, 0]" example_sensors example_sensors False
      "\<lparr>target_pos = (4, 0, - 2), max_steps = 200, step_count = 1, safe_bound = 10,
        step_in_episode = Some 1\<rparr>" example_obs "- 1" False "[]"]
  from ta have r1: "step_count (fst (reset example_env example_sensors)) = 0"
    and r2: "step_in_episode (fst (reset example_env example_sensors)) = Some 0"
    by blast+
  from ta a have r3: "step_count \<lparr>target_pos = (4, 0, - 2), max_steps = 200,
      step_count = 1, safe_bound = 10, step_in_episode = Some 0\<rparr> = step_count example_env + 1"
    by blast
  from tb b have r4: "step_count \<lparr>target_pos = (4, 0, - 2), max_steps = 200,
      step_count = 1, safe_bound = 10, step_in_episode = Some 1\<rparr> = step_count example_env + 1"
    by blast
  from r1 r2 a r3 b r4 show ?thesis by (intro conjI)
qed

text \<open>
  Claim C9 as the spec states it fails for the lifetime counter: the sample step with a
  collision is terminal, and the lifetime counter goes from 0 to 1.
\<close>

theorem step_counters_counterexample:
  "step_count example_env = 0 \<and>
   step example_config example_env [0, 0, 0, 0] example_sensors example_sensors True =
     Inr (\<lparr>target_pos = (4, 0, - 2), max_steps = 200, step_count = 1, safe_bound = 10,
           step_in_episode = Some 0\<rparr>, example_obs, - 100, True, []) \<and>
   step_count \<lparr>target_pos = (4, 0, - 2), max_steps = 200, step_count = 1, safe_bound = 10,
           step_in_episode = Some 0\<rparr> = 1"
  using step_example_collision by (simp add: example_env_eq)

end
